theory Spec2Isabelle
  imports Complex_Main
begin

section \<open>Smart Image Cropper: the App component of src/App.tsx\<close>

text \<open>
  The component keeps its data in React state cells and reacts to events. Each handler
  of the source is a function from the state before the event to the state after it.
  JavaScript numbers are modelled as real numbers: the arithmetic of the source is
  read exactly, without the rounding of IEEE doubles. The concrete inputs used below
  are chosen so that the JavaScript evaluation gives the same values.

  The functions \<open>makeAspectCrop\<close> and \<open>centerCrop\<close> are imported from the package
  react-image-crop. Their code is not part of this repository, so they are parameters of
  the model: every handler that calls them takes the imported module as an argument.
\<close>

subsection \<open>Data\<close>

text \<open>The \<open>unit\<close> field of a crop of react-image-crop: \<open>'px'\<close> or \<open>'%'\<close>.\<close>

datatype crop_unit = Px | Percent

text \<open>\<open>Crop\<close>, \<open>PercentCrop\<close> and \<open>PixelCrop\<close>: the same five fields.\<close>

record Crop =
  crop_unit :: crop_unit
  crop_x :: real
  crop_y :: real
  crop_width :: real
  crop_height :: real

text \<open>The two imports from react-image-crop that the component calls.\<close>

record ReactImageCrop =
  makeAspectCrop :: "Crop \<Rightarrow> real \<Rightarrow> real \<Rightarrow> real \<Rightarrow> Crop"
  centerCrop :: "Crop \<Rightarrow> real \<Rightarrow> real \<Rightarrow> Crop"

text \<open>The bounding box of a detection of face-api.js, in pixels, and the detection.\<close>

record Box =
  box_x :: real
  box_y :: real
  box_width :: real
  box_height :: real

record FaceDetection =
  box :: Box

text \<open>What \<open>faceapi.detectAllFaces\<close> can throw.\<close>

datatype error = DetectorError string

text \<open>
  The fields of the \<open>img\<close> element that the component reads: \<open>width\<close> and
  \<open>height\<close> are the rendered size, \<open>naturalWidth\<close> and \<open>naturalHeight\<close> the size of
  the decoded file.
\<close>

record HTMLImageElement =
  img_width :: real
  img_height :: real
  naturalWidth :: real
  naturalHeight :: real

record File =
  file_name :: string
  file_type :: string

text \<open>The six \<open>useState\<close> cells of \<open>App\<close>, lines 9 to 15.\<close>

record App_state =
  imgSrc :: string
  crop :: "Crop option"
  aspect :: real
  completedCrop :: "Crop option"
  isLoading :: bool
  isDragging :: bool

definition initial_state :: App_state where
  "initial_state =
     \<lparr>imgSrc = '''', crop = None, aspect = 1, completedCrop = None,
      isLoading = False, isDragging = False\<rparr>"

text \<open>
  What \<open>onImageLoad\<close> has read before it suspends at \<open>await\<close>: the rendered size of
  the event target, and the \<open>aspect\<close> its closure was created with.
\<close>

record Detection_call =
  call_width :: real
  call_height :: real
  call_aspect :: real

text \<open>The canvas size that export sets and the arguments of its one \<open>drawImage\<close> call.\<close>

record Export =
  canvas_width :: real
  canvas_height :: real
  sx :: real
  sy :: real
  sWidth :: real
  sHeight :: real
  dx :: real
  dy :: real
  dWidth :: real
  dHeight :: real

subsection \<open>Image intake (lines 49 to 91)\<close>

text \<open>\<open>String.prototype.startsWith\<close>.\<close>

definition startsWith :: "string \<Rightarrow> string \<Rightarrow> bool" where
  "startsWith s p = (take (length p) s = p)"

text \<open>
  \<open>handleFile\<close> calls no state setter itself. For an image file it creates a
  \<open>FileReader\<close> and starts \<open>readAsDataURL\<close>: the second component of the result
  is the file whose read was started, if any.
\<close>

definition handleFile :: "File \<Rightarrow> App_state \<Rightarrow> App_state \<times> File option" where
  "handleFile file st =
     (if startsWith (file_type file) ''image/'' then (st, Some file) else (st, None))"

text \<open>The \<open>load\<close> listener of the reader: \<open>setImgSrc(reader.result?.toString() || '')\<close>.\<close>

definition reader_load :: "string option \<Rightarrow> App_state \<Rightarrow> App_state" where
  "reader_load result st =
     st\<lparr>imgSrc := (case result of None \<Rightarrow> '''' | Some s \<Rightarrow> s)\<rparr>"

text \<open>\<open>e.target.files\<close> may be \<open>null\<close>.\<close>

definition onSelectFile :: "File list option \<Rightarrow> App_state \<Rightarrow> App_state \<times> File option" where
  "onSelectFile files st =
     (case files of
        None \<Rightarrow> (st, None)
      | Some [] \<Rightarrow> (st, None)
      | Some (f # _) \<Rightarrow> handleFile f st)"

definition handleDragEnter :: "App_state \<Rightarrow> App_state" where
  "handleDragEnter st = st\<lparr>isDragging := True\<rparr>"

definition handleDragLeave :: "App_state \<Rightarrow> App_state" where
  "handleDragLeave st = st\<lparr>isDragging := False\<rparr>"

definition handleDragOver :: "App_state \<Rightarrow> App_state" where
  "handleDragOver st = st"

definition handleDrop :: "File list \<Rightarrow> App_state \<Rightarrow> App_state \<times> File option" where
  "handleDrop files st =
     (case files of
        [] \<Rightarrow> (st\<lparr>isDragging := False\<rparr>, None)
      | f # _ \<Rightarrow> handleFile f (st\<lparr>isDragging := False\<rparr>))"

subsection \<open>Cancel and the callbacks of the crop surface\<close>

definition handleCancel :: "App_state \<Rightarrow> App_state" where
  "handleCancel st = st\<lparr>imgSrc := '''', crop := None, completedCrop := None\<rparr>"

text \<open>\<open>onChange\<close> and \<open>onComplete\<close> of \<open>ReactCrop\<close>, lines 302 and 303.\<close>

definition onChange :: "Crop \<Rightarrow> App_state \<Rightarrow> App_state" where
  "onChange percentCrop st = st\<lparr>crop := Some percentCrop\<rparr>"

definition onComplete :: "Crop \<Rightarrow> App_state \<Rightarrow> App_state" where
  "onComplete c st = st\<lparr>completedCrop := Some c\<rparr>"

subsection \<open>Crop geometry (lines 21 to 38 and 99 to 175)\<close>

text \<open>The object literal of lines 25 to 31 and 160 to 165.\<close>

definition fallbackCrop :: Crop where
  "fallbackCrop =
     \<lparr>crop_unit = Percent, crop_x = 5, crop_y = 5, crop_width = 90, crop_height = 90\<rparr>"

text \<open>Lines 117 and 118.\<close>

definition faceWidth :: "FaceDetection \<Rightarrow> real \<Rightarrow> real" where
  "faceWidth face width = (box_width (box face) / width) * 100"

definition faceHeight :: "FaceDetection \<Rightarrow> real \<Rightarrow> real" where
  "faceHeight face height = (box_height (box face) / height) * 100"

text \<open>
  Lines 121 to 129: \<open>(cropWidth, cropHeight)\<close>. When \<open>aspect\<close> is none of the three
  constants the variables keep the values 90 and 90 of lines 111 and 112.
\<close>

definition cropSize :: "real \<Rightarrow> real \<Rightarrow> real \<Rightarrow> real \<times> real" where
  "cropSize a fw fh =
     (if a = 1 then (max fw fh * 1.5, max fw fh * 1.5)
      else if a = 4 / 5 then (fw * 1.5, (fw * 1.5) * (5 / 4))
      else if a = 16 / 9 then ((fh * 1.5) * (16 / 9), fh * 1.5)
      else (90, 90))"

text \<open>Lines 136 and 137: \<open>Math.max(0, Math.min(origin, 100 - size))\<close>.\<close>

definition clampOrigin :: "real \<Rightarrow> real \<Rightarrow> real" where
  "clampOrigin origin sz = max 0 (min origin (100 - sz))"

text \<open>
  Lines 109 to 147: the object literal that \<open>onImageLoad\<close> hands to
  \<open>makeAspectCrop\<close>, from the detections, the rendered size and the aspect.
\<close>

definition cropRect :: "real \<Rightarrow> real \<Rightarrow> real \<Rightarrow> FaceDetection list \<Rightarrow> Crop" where
  "cropRect a width height detections =
     (case detections of
        [] \<Rightarrow> \<lparr>crop_unit = Percent, crop_x = 5, crop_y = 5, crop_width = 90, crop_height = 90\<rparr>
      | face # _ \<Rightarrow>
          (let fw = faceWidth face width;
               fh = faceHeight face height;
               cropWidth = fst (cropSize a fw fh);
               cropHeight = snd (cropSize a fw fh);
               cropX = ((box_x (box face) / width) * 100) - ((cropWidth - fw) / 2);
               cropY = ((box_y (box face) / height) * 100) - ((cropHeight - fh) / 2)
           in \<lparr>crop_unit = Percent,
               crop_x = clampOrigin cropX cropWidth,
               crop_y = clampOrigin cropY cropHeight,
               crop_width = cropWidth,
               crop_height = cropHeight\<rparr>))"

text \<open>
  \<open>onImageLoad\<close> up to its \<open>await\<close> (lines 100 to 104): it reads the rendered
  size of the event target, sets the loading flag and starts the detection.
\<close>

definition onImageLoad_begin ::
  "HTMLImageElement \<Rightarrow> App_state \<Rightarrow> App_state \<times> Detection_call" where
  "onImageLoad_begin target st =
     (st\<lparr>isLoading := True\<rparr>,
      \<lparr>call_width = img_width target, call_height = img_height target,
       call_aspect = aspect st\<rparr>)"

text \<open>
  \<open>onImageLoad\<close> from the point where the detection settles (lines 109 to 174):
  \<open>Inr detections\<close> when the promise resolves, \<open>Inl e\<close> when it rejects and the
  \<open>catch\<close> block runs. The state is the one current at that moment.
\<close>

definition onImageLoad_resume ::
  "ReactImageCrop \<Rightarrow> Detection_call \<Rightarrow> error + FaceDetection list \<Rightarrow> App_state \<Rightarrow> App_state" where
  "onImageLoad_resume lib c result st =
     (let width = call_width c; height = call_height c; a = call_aspect c
      in case result of
           Inr detections \<Rightarrow>
             st\<lparr>crop := Some (centerCrop lib
                    (makeAspectCrop lib (cropRect a width height detections) a width height)
                    width height),
                isLoading := False\<rparr>
         | Inl e \<Rightarrow>
             st\<lparr>crop := Some (centerCrop lib
                    (makeAspectCrop lib fallbackCrop a width height) width height),
                isLoading := False\<rparr>)"

text \<open>The whole handler when no other event comes between the two halves.\<close>

definition onImageLoad ::
  "ReactImageCrop \<Rightarrow> HTMLImageElement \<Rightarrow> error + FaceDetection list \<Rightarrow> App_state \<Rightarrow> App_state" where
  "onImageLoad lib target result st =
     onImageLoad_resume lib (snd (onImageLoad_begin target st)) result
       (fst (onImageLoad_begin target st))"

text \<open>
  The effect of lines 21 to 38, which React runs after a render in which \<open>aspect\<close>
  has changed. \<open>imgRef\<close> is \<open>imgRef.current\<close>: the mounted \<open>img\<close> element, or
  \<open>null\<close>.
\<close>

definition aspect_effect ::
  "ReactImageCrop \<Rightarrow> HTMLImageElement option \<Rightarrow> App_state \<Rightarrow> App_state" where
  "aspect_effect lib imgRef st =
     (case imgRef of
        None \<Rightarrow> st
      | Some img \<Rightarrow>
          (let width = img_width img; height = img_height img;
               newCrop = makeAspectCrop lib fallbackCrop (aspect st) width height
           in st\<lparr>crop := Some (centerCrop lib newCrop width height)\<rparr>))"

text \<open>
  A click on one of the three ratio buttons (lines 264, 274 and 284):
  \<open>setAspect(a)\<close>, then the effect when the value has changed.
\<close>

definition setAspect ::
  "ReactImageCrop \<Rightarrow> HTMLImageElement option \<Rightarrow> real \<Rightarrow> App_state \<Rightarrow> App_state" where
  "setAspect lib imgRef a st =
     (if a = aspect st then st else aspect_effect lib imgRef (st\<lparr>aspect := a\<rparr>))"

subsection \<open>Export (lines 177 to 211)\<close>

text \<open>
  \<open>downloadCroppedImage\<close>: \<open>None\<close> for each of the early returns (no image
  element, no committed crop, no 2D context), otherwise the canvas size and the
  arguments of \<open>drawImage\<close>. The encoding of the canvas as \<open>image/jpeg\<close> and the
  download under the name \<open>cropped-image.jpg\<close> follow and are not modelled.
\<close>

definition downloadCroppedImage ::
  "HTMLImageElement option \<Rightarrow> Crop option \<Rightarrow> bool \<Rightarrow> Export option" where
  "downloadCroppedImage imgRef completed ctx =
     (case imgRef of
        None \<Rightarrow> None
      | Some img \<Rightarrow>
          (case completed of
             None \<Rightarrow> None
           | Some c \<Rightarrow>
               if \<not> ctx then None
               else
                 (let scaleX = naturalWidth img / img_width img;
                      scaleY = naturalHeight img / img_height img
                  in Some \<lparr>canvas_width = crop_width c,
                           canvas_height = crop_height c,
                           sx = crop_x c * scaleX,
                           sy = crop_y c * scaleY,
                           sWidth = crop_width c * scaleX,
                           sHeight = crop_height c * scaleY,
                           dx = 0,
                           dy = 0,
                           dWidth = crop_width c,
                           dHeight = crop_height c\<rparr>)))"

subsection \<open>An instance of the imported module\<close>

text \<open>
  The crop that the component stores is the result of \<open>makeAspectCrop\<close> and
  \<open>centerCrop\<close>. The theorems about it are stated twice: for every module that meets
  conditions written out in the theorem, and for the instance defined here, the
  computation that react-image-crop (versions 10 and 11) performs, read in exact
  arithmetic. Both functions convert the crop to pixels, work in pixels and convert
  the result back when the crop came in percent. This is the package's computation,
  not code of the repository.
\<close>

definition convertToPixelCrop :: "Crop \<Rightarrow> real \<Rightarrow> real \<Rightarrow> Crop" where
  "convertToPixelCrop c containerWidth containerHeight =
     (if crop_unit c = Px then c
      else \<lparr>crop_unit = Px,
            crop_x = crop_x c * containerWidth / 100,
            crop_y = crop_y c * containerHeight / 100,
            crop_width = crop_width c * containerWidth / 100,
            crop_height = crop_height c * containerHeight / 100\<rparr>)"

definition convertToPercentCrop :: "Crop \<Rightarrow> real \<Rightarrow> real \<Rightarrow> Crop" where
  "convertToPercentCrop c containerWidth containerHeight =
     (if crop_unit c = Percent then c
      else \<lparr>crop_unit = Percent,
            crop_x = crop_x c / containerWidth * 100,
            crop_y = crop_y c / containerHeight * 100,
            crop_width = crop_width c / containerWidth * 100,
            crop_height = crop_height c / containerHeight * 100\<rparr>)"

text \<open>
  The package's \<open>makeAspectCrop\<close>: the height follows from a given width, the width
  from a given height, and a crop that leaves the container at the bottom or on the
  right is cut back to the container, keeping the ratio.
\<close>

definition package_makeAspectCrop :: "Crop \<Rightarrow> real \<Rightarrow> real \<Rightarrow> real \<Rightarrow> Crop" where
  "package_makeAspectCrop c a containerWidth containerHeight =
     (let p0 = convertToPixelCrop c containerWidth containerHeight;
          p1 = (if crop_width c \<noteq> 0 then p0\<lparr>crop_height := crop_width p0 / a\<rparr> else p0);
          p2 = (if crop_height c \<noteq> 0 then p1\<lparr>crop_width := crop_height p1 * a\<rparr> else p1);
          p3 = (if crop_y p2 + crop_height p2 > containerHeight
                then p2\<lparr>crop_height := containerHeight - crop_y p2,
                        crop_width := (containerHeight - crop_y p2) * a\<rparr>
                else p2);
          p4 = (if crop_x p3 + crop_width p3 > containerWidth
                then p3\<lparr>crop_width := containerWidth - crop_x p3,
                        crop_height := (containerWidth - crop_x p3) / a\<rparr>
                else p3)
      in if crop_unit c = Percent
         then convertToPercentCrop p4 containerWidth containerHeight else p4)"

text \<open>The package's \<open>centerCrop\<close>: the size stays, the origin centres the crop.\<close>

definition package_centerCrop :: "Crop \<Rightarrow> real \<Rightarrow> real \<Rightarrow> Crop" where
  "package_centerCrop c containerWidth containerHeight =
     (let p0 = convertToPixelCrop c containerWidth containerHeight;
          p1 = p0\<lparr>crop_x := (containerWidth - crop_width p0) / 2,
                  crop_y := (containerHeight - crop_height p0) / 2\<rparr>
      in if crop_unit c = Percent
         then convertToPercentCrop p1 containerWidth containerHeight else p1)"

definition react_image_crop :: ReactImageCrop where
  "react_image_crop =
     \<lparr>makeAspectCrop = package_makeAspectCrop, centerCrop = package_centerCrop\<rparr>"

section \<open>Properties\<close>

lemmas geometry_defs =
  cropRect_def faceWidth_def faceHeight_def cropSize_def clampOrigin_def Let_def

lemmas load_defs =
  onImageLoad_def onImageLoad_begin_def onImageLoad_resume_def Let_def

lemmas package_fun_defs =
  package_makeAspectCrop_def package_centerCrop_def convertToPixelCrop_def
  convertToPercentCrop_def Let_def

subsection \<open>Intake\<close>

text \<open>
  C10. When several files arrive at once, by a drop or from the picker, only the first
  one is handed to \<open>handleFile\<close>: the result does not depend on the rest of the list.
\<close>

theorem first_file_only:
  "handleDrop (f # fs) st = handleFile f (st\<lparr>isDragging := False\<rparr>)
   \<and> handleDrop (f # fs) st = handleDrop [f] st
   \<and> onSelectFile (Some (f # fs)) st = handleFile f st
   \<and> onSelectFile (Some (f # fs)) st = onSelectFile (Some [f]) st"
  by (simp add: handleDrop_def onSelectFile_def)

text \<open>
  C9, as amended. A file whose type does not start with \<open>image/\<close> changes nothing
  but the drag flag on a drop: \<open>handleFile\<close> returns the state as it was and starts
  no read; from the picker the state stays as it was; on a drop the state is the one
  before the drop with the drag flag cleared, and no read is started.
\<close>

theorem non_image_file_ignored:
  assumes "\<not> startsWith (file_type f) ''image/''"
  shows "handleFile f st = (st, None)
       \<and> onSelectFile (Some (f # fs)) st = (st, None)
       \<and> handleDrop (f # fs) st = (st\<lparr>isDragging := False\<rparr>, None)"
  using assms by (simp add: handleFile_def onSelectFile_def handleDrop_def)

text \<open>
  The amended C9 at the file \<open>notes.txt\<close> of type \<open>text/plain\<close>, picked or
  dropped in the initial state.
\<close>

theorem non_image_file_ignored_witness:
  "\<not> startsWith (file_type \<lparr>file_name = ''notes.txt'', file_type = ''text/plain''\<rparr>)
        ''image/''
   \<and> handleFile \<lparr>file_name = ''notes.txt'', file_type = ''text/plain''\<rparr> initial_state
       = (initial_state, None)
   \<and> onSelectFile (Some [\<lparr>file_name = ''notes.txt'', file_type = ''text/plain''\<rparr>])
        initial_state
       = (initial_state, None)
   \<and> handleDrop [\<lparr>file_name = ''notes.txt'', file_type = ''text/plain''\<rparr>] initial_state
       = (initial_state\<lparr>isDragging := False\<rparr>, None)"
proof -
  have h: "\<not> startsWith
      (file_type \<lparr>file_name = ''notes.txt'', file_type = ''text/plain''\<rparr>) ''image/''"
    by (simp add: startsWith_def)
  show ?thesis
    using h non_image_file_ignored [OF h, where st = initial_state and fs = "[]"] by simp
qed

text \<open>
  C9 as stated fails for a drop: the pointer enters the drop zone, which sets the drag
  flag, and the file \<open>notes.txt\<close> of type \<open>text/plain\<close> is dropped. The state
  after the drop is not the state before it: the drag flag went from true to false.
\<close>

theorem non_image_drop_counterexample:
  "fst (handleDrop [\<lparr>file_name = ''notes.txt'', file_type = ''text/plain''\<rparr>]
          (handleDragEnter initial_state))
     \<noteq> handleDragEnter initial_state
   \<and> isDragging (handleDragEnter initial_state) = True
   \<and> isDragging (fst (handleDrop [\<lparr>file_name = ''notes.txt'', file_type = ''text/plain''\<rparr>]
          (handleDragEnter initial_state))) = False"
  by (simp add: handleDrop_def handleFile_def handleDragEnter_def startsWith_def
      initial_state_def)

subsection \<open>Cancel\<close>

text \<open>
  C7, as amended. Cancel resets the image source, the live crop and the committed crop
  to their initial values. It leaves the aspect, the loading flag and the drag flag as
  they are.
\<close>

theorem cancel_resets_image_and_crops:
  "imgSrc (handleCancel st) = imgSrc initial_state
   \<and> crop (handleCancel st) = crop initial_state
   \<and> completedCrop (handleCancel st) = completedCrop initial_state
   \<and> aspect (handleCancel st) = aspect st
   \<and> isLoading (handleCancel st) = isLoading st
   \<and> isDragging (handleCancel st) = isDragging st"
  by (simp add: handleCancel_def initial_state_def)

text \<open>
  C7 as stated fails in a state with the ratio 16:9 chosen and a detection in flight:
  after cancel the aspect is still 16/9 and the loading flag is still set, so the
  state is not the initial one.
\<close>

theorem cancel_resets_all_counterexample:
  "handleCancel
     \<lparr>imgSrc = ''data:image/png;base64,AAAA'',
      crop = Some \<lparr>crop_unit = Percent, crop_x = 5, crop_y = 5, crop_width = 90,
                   crop_height = 90\<rparr>,
      aspect = 16 / 9, completedCrop = None, isLoading = True, isDragging = False\<rparr>
     \<noteq> initial_state
   \<and> aspect (handleCancel
     \<lparr>imgSrc = ''data:image/png;base64,AAAA'',
      crop = Some \<lparr>crop_unit = Percent, crop_x = 5, crop_y = 5, crop_width = 90,
                   crop_height = 90\<rparr>,
      aspect = 16 / 9, completedCrop = None, isLoading = True, isDragging = False\<rparr>)
     \<noteq> aspect initial_state
   \<and> isLoading (handleCancel
     \<lparr>imgSrc = ''data:image/png;base64,AAAA'',
      crop = Some \<lparr>crop_unit = Percent, crop_x = 5, crop_y = 5, crop_width = 90,
                   crop_height = 90\<rparr>,
      aspect = 16 / 9, completedCrop = None, isLoading = True, isDragging = False\<rparr>)
     \<noteq> isLoading initial_state"
  by (simp add: handleCancel_def initial_state_def)

subsection \<open>The instance of the imported module\<close>

text \<open>
  Three facts about the package's computation on percent crops, in the form in which
  the theorems below assume them of the module: \<open>centerCrop\<close> keeps the size and
  centres the origin; \<open>makeAspectCrop\<close> leaves the origin and the width of a crop
  that fits and derives the height from the width; and for an origin inside the
  container it returns a size inside the container.
\<close>

lemma package_centerCrop_percent:
  assumes "crop_unit r = Percent" "0 < w" "0 < h"
  shows "centerCrop react_image_crop r w h
     = r\<lparr>crop_x := (100 - crop_width r) / 2, crop_y := (100 - crop_height r) / 2\<rparr>"
  using assms
  by (simp add: react_image_crop_def package_centerCrop_def convertToPixelCrop_def
      convertToPercentCrop_def Let_def field_simps)


text \<open>
  The two cuts of \<open>makeAspectCrop\<close> in pixels, from a width and a height that have
  the ratio: the result lies inside the container.
\<close>

lemma aspect_steps_fit:
  fixes X Y a W H h1 w2 :: real
  assumes "0 < a" "0 \<le> X" "X \<le> W" "0 \<le> Y" "Y \<le> H" "0 \<le> h1" "w2 = h1 * a"
  defines "h3 \<equiv> (if Y + h1 > H then H - Y else h1)"
    and "w3 \<equiv> (if Y + h1 > H then (H - Y) * a else w2)"
  defines "w4 \<equiv> (if X + w3 > W then W - X else w3)"
    and "h4 \<equiv> (if X + w3 > W then (W - X) / a else h3)"
  shows "0 \<le> w4 \<and> w4 \<le> W \<and> 0 \<le> h4 \<and> h4 \<le> H"
proof -
  have h3: "0 \<le> h3" "h3 \<le> H" "Y + h3 \<le> H"
    using assms(4,5,6) by (auto simp: h3_def)
  have w3: "w3 = h3 * a"
    using assms(7) by (simp add: h3_def w3_def)
  have w3n: "0 \<le> w3" using h3(1) assms(1) by (simp add: w3)
  show ?thesis
  proof (cases "X + w3 > W")
    case True
    then have "W - X < h3 * a" by (simp add: w3)
    then have "(W - X) / a < h3" using assms(1) by (simp add: field_simps)
    with True h3 assms(1,2,3) show ?thesis by (simp add: w4_def h4_def)
  next
    case False
    with h3 w3n assms(2) show ?thesis by (simp add: w4_def h4_def)
  qed
qed

lemma package_makeAspectCrop_fits:
  assumes "crop_unit r = Percent" "0 < a" "0 < w" "0 < h"
    and "0 \<le> crop_x r" "crop_x r \<le> 100" "0 \<le> crop_y r" "crop_y r \<le> 100"
    and "0 \<le> crop_width r" "0 \<le> crop_height r"
  shows "crop_unit (makeAspectCrop react_image_crop r a w h) = Percent
       \<and> 0 \<le> crop_width (makeAspectCrop react_image_crop r a w h)
       \<and> crop_width (makeAspectCrop react_image_crop r a w h) \<le> 100
       \<and> 0 \<le> crop_height (makeAspectCrop react_image_crop r a w h)
       \<and> crop_height (makeAspectCrop react_image_crop r a w h) \<le> 100"
proof -
  define p0 where "p0 = convertToPixelCrop r w h"
  define p1 where
    "p1 = (if crop_width r \<noteq> 0 then p0\<lparr>crop_height := crop_width p0 / a\<rparr> else p0)"
  define p2 where
    "p2 = (if crop_height r \<noteq> 0 then p1\<lparr>crop_width := crop_height p1 * a\<rparr> else p1)"
  define p3 where
    "p3 = (if crop_y p2 + crop_height p2 > h
           then p2\<lparr>crop_height := h - crop_y p2, crop_width := (h - crop_y p2) * a\<rparr>
           else p2)"
  define p4 where
    "p4 = (if crop_x p3 + crop_width p3 > w
           then p3\<lparr>crop_width := w - crop_x p3, crop_height := (w - crop_x p3) / a\<rparr>
           else p3)"
  have res: "makeAspectCrop react_image_crop r a w h = convertToPercentCrop p4 w h"
    unfolding react_image_crop_def package_makeAspectCrop_def p4_def p3_def p2_def p1_def
      p0_def Let_def
    using assms(1) by (simp only: ReactImageCrop.select_convs if_True simp_thms)
  have p0: "crop_unit p0 = Px" "0 \<le> crop_x p0" "crop_x p0 \<le> w" "0 \<le> crop_y p0"
      "crop_y p0 \<le> h" "0 \<le> crop_width p0" "0 \<le> crop_height p0"
    using assms mult_right_mono [of "crop_x r" 100 w] mult_right_mono [of "crop_y r" 100 h]
    by (simp_all add: p0_def convertToPixelCrop_def)
  have p1: "crop_unit p1 = Px" "crop_x p1 = crop_x p0" "crop_y p1 = crop_y p0"
      "crop_width p1 = crop_width p0" "0 \<le> crop_height p1"
      "crop_width r \<noteq> 0 \<Longrightarrow> crop_width p1 = crop_height p1 * a"
    using p0 assms(2) by (simp_all add: p1_def)
  have w0: "crop_width r = 0 \<Longrightarrow> crop_width p0 = 0"
    using assms(1) by (simp add: p0_def convertToPixelCrop_def)
  have h0: "crop_width r = 0 \<Longrightarrow> crop_height r = 0 \<Longrightarrow> crop_height p1 = 0"
    using assms(1) by (simp add: p1_def p0_def convertToPixelCrop_def)
  have p2: "crop_unit p2 = Px" "crop_x p2 = crop_x p0" "crop_y p2 = crop_y p0"
      "0 \<le> crop_height p2" "crop_width p2 = crop_height p2 * a"
    using p1 w0 h0 by (cases "crop_width r = 0"; simp add: p2_def)+
  have px:
    "0 \<le> (if crop_x p0 + (if crop_y p0 + crop_height p2 > h then (h - crop_y p0) * a
                           else crop_width p2) > w
           then w - crop_x p0
           else (if crop_y p0 + crop_height p2 > h then (h - crop_y p0) * a
                 else crop_width p2))
     \<and> (if crop_x p0 + (if crop_y p0 + crop_height p2 > h then (h - crop_y p0) * a
                           else crop_width p2) > w
           then w - crop_x p0
           else (if crop_y p0 + crop_height p2 > h then (h - crop_y p0) * a
                 else crop_width p2)) \<le> w
     \<and> 0 \<le> (if crop_x p0 + (if crop_y p0 + crop_height p2 > h then (h - crop_y p0) * a
                           else crop_width p2) > w
           then (w - crop_x p0) / a
           else (if crop_y p0 + crop_height p2 > h then h - crop_y p0 else crop_height p2))
     \<and> (if crop_x p0 + (if crop_y p0 + crop_height p2 > h then (h - crop_y p0) * a
                           else crop_width p2) > w
           then (w - crop_x p0) / a
           else (if crop_y p0 + crop_height p2 > h then h - crop_y p0 else crop_height p2))
        \<le> h"
    by (rule aspect_steps_fit [OF assms(2) p0(2,3,4,5) p2(4,5)])
  have p3: "crop_unit p3 = Px" "crop_x p3 = crop_x p0"
      "crop_width p3
         = (if crop_y p0 + crop_height p2 > h then (h - crop_y p0) * a else crop_width p2)"
      "crop_height p3
         = (if crop_y p0 + crop_height p2 > h then h - crop_y p0 else crop_height p2)"
    using p2 by (simp_all add: p3_def)
  have p4: "crop_unit p4 = Px"
      "crop_width p4 = (if crop_x p0 + crop_width p3 > w then w - crop_x p0 else crop_width p3)"
      "crop_height p4
         = (if crop_x p0 + crop_width p3 > w then (w - crop_x p0) / a else crop_height p3)"
    using p3(1,2) by (simp_all add: p4_def)
  have b: "0 \<le> crop_width p4" "crop_width p4 \<le> w" "0 \<le> crop_height p4"
      "crop_height p4 \<le> h"
    using px by (simp_all only: p4 p3)
  have "crop_width p4 / w * 100 \<le> 100" "crop_height p4 / h * 100 \<le> 100"
    using b assms(3,4) by (simp_all add: field_simps)
  moreover have "0 \<le> crop_width p4 / w * 100" "0 \<le> crop_height p4 / h * 100"
    using b assms(3,4) by simp_all
  ultimately show ?thesis
    using p4(1) by (simp add: res convertToPercentCrop_def)
qed

text \<open>The stored crop of the instance from its three stages.\<close>

lemma resume_detections_crop:
  "crop (onImageLoad_resume lib c (Inr detections) st)
     = Some (centerCrop lib
         (makeAspectCrop lib
            (cropRect (call_aspect c) (call_width c) (call_height c) detections)
            (call_aspect c) (call_width c) (call_height c))
         (call_width c) (call_height c))"
  by (simp add: onImageLoad_resume_def Let_def)

lemma stored_crop_eval:
  assumes "cropRect a w h detections = req"
    and "package_makeAspectCrop req a w h = m"
    and "package_centerCrop m w h = s"
  shows "crop (onImageLoad_resume react_image_crop
            \<lparr>call_width = w, call_height = h, call_aspect = a\<rparr> (Inr detections) st)
         = Some s"
  using assms by (simp add: resume_detections_crop react_image_crop_def)

subsection \<open>The rectangle handed to makeAspectCrop\<close>

text \<open>
  The clamp of lines 136 and 137: the clamped origin lies between 0 and 100, and it
  keeps the rectangle below 100 when the size itself is at most 100. For a larger size
  \<open>100 - size\<close> is negative and the outer \<open>max\<close> returns 0, so the rectangle
  handed to \<open>makeAspectCrop\<close> can reach beyond 100: on a 128 by 128 image the face
  box (16, 16, 96, 96) gives the rectangle (0, 0, 112.5, 112.5).
\<close>

lemma clampOrigin_nonneg: "0 \<le> clampOrigin origin sz"
  by (simp add: clampOrigin_def)


lemma clampOrigin_le_100: "0 \<le> sz \<Longrightarrow> clampOrigin origin sz \<le> 100"
  by (simp add: clampOrigin_def max_def min_def)

lemma request_of_large_face:
  "cropRect 1 128 128
        [\<lparr>box = \<lparr>box_x = 16, box_y = 16, box_width = 96, box_height = 96\<rparr>\<rparr>]
      = \<lparr>crop_unit = Percent, crop_x = 0, crop_y = 0, crop_width = 112.5,
         crop_height = 112.5\<rparr>"
  by (simp add: geometry_defs)

lemma centred_fits:
  fixes s :: real
  assumes "0 \<le> s" "s \<le> 100"
  shows "0 \<le> (100 - s) / 2 \<and> (100 - s) / 2 + s \<le> 100"
  using assms by (simp add: field_simps)

lemma cropSize_nonneg:
  "0 \<le> fw \<Longrightarrow> 0 \<le> fh \<Longrightarrow> 0 \<le> fst (cropSize a fw fh) \<and> 0 \<le> snd (cropSize a fw fh)"
  by (simp add: cropSize_def max_def)

lemma cropRect_face_request:
  assumes "0 < width" "0 < height"
    and "0 \<le> box_width (box face)" "0 \<le> box_height (box face)"
  shows "crop_unit (cropRect a width height (face # rest)) = Percent
       \<and> 0 \<le> crop_x (cropRect a width height (face # rest))
       \<and> crop_x (cropRect a width height (face # rest)) \<le> 100
       \<and> 0 \<le> crop_y (cropRect a width height (face # rest))
       \<and> crop_y (cropRect a width height (face # rest)) \<le> 100
       \<and> 0 \<le> crop_width (cropRect a width height (face # rest))
       \<and> 0 \<le> crop_height (cropRect a width height (face # rest))"
proof -
  have fw: "0 \<le> faceWidth face width" and fh: "0 \<le> faceHeight face height"
    using assms by (simp_all add: faceWidth_def faceHeight_def)
  from cropSize_nonneg [OF fw fh, of a] show ?thesis
    by (simp add: cropRect_def Let_def clampOrigin_nonneg clampOrigin_le_100)
qed


subsection \<open>The crop stored for a face\<close>

text \<open>
  The bounds of the stored crop for any module. Let \<open>centerCrop\<close> keep the size of
  a percent crop and centre its origin, and let \<open>makeAspectCrop\<close> return, for a
  percent crop with its origin between 0 and 100 and a size that is not negative, a
  percent crop with width and height between 0 and 100. Then the crop stored for a
  face lies inside the image. The clamp of lines 136 and 137 puts the origin between 0
  and 100, which is what \<open>makeAspectCrop\<close> needs.
\<close>

lemma stored_face_crop_in_bounds_for:
  assumes center: "\<And>r w h. crop_unit r = Percent \<Longrightarrow> 0 < w \<Longrightarrow> 0 < h \<Longrightarrow>
      centerCrop lib r w h
        = r\<lparr>crop_x := (100 - crop_width r) / 2, crop_y := (100 - crop_height r) / 2\<rparr>"
    and fits: "\<And>r a w h. crop_unit r = Percent \<Longrightarrow> 0 < a \<Longrightarrow> 0 < w \<Longrightarrow> 0 < h \<Longrightarrow>
      0 \<le> crop_x r \<Longrightarrow> crop_x r \<le> 100 \<Longrightarrow> 0 \<le> crop_y r \<Longrightarrow> crop_y r \<le> 100 \<Longrightarrow>
      0 \<le> crop_width r \<Longrightarrow> 0 \<le> crop_height r \<Longrightarrow>
      crop_unit (makeAspectCrop lib r a w h) = Percent
      \<and> 0 \<le> crop_width (makeAspectCrop lib r a w h)
      \<and> crop_width (makeAspectCrop lib r a w h) \<le> 100
      \<and> 0 \<le> crop_height (makeAspectCrop lib r a w h)
      \<and> crop_height (makeAspectCrop lib r a w h) \<le> 100"
    and size: "0 < call_width c" "0 < call_height c"
    and ratio: "call_aspect c = 1 \<or> call_aspect c = 4 / 5 \<or> call_aspect c = 16 / 9"
    and face: "0 \<le> box_width (box face)" "0 \<le> box_height (box face)"
  shows "\<exists>r. crop (onImageLoad_resume lib c (Inr (face # rest)) st) = Some r
           \<and> 0 \<le> crop_x r \<and> 0 \<le> crop_y r
           \<and> crop_x r + crop_width r \<le> 100 \<and> crop_y r + crop_height r \<le> 100"
proof -
  let ?req = "cropRect (call_aspect c) (call_width c) (call_height c) (face # rest)"
  let ?m = "makeAspectCrop lib ?req (call_aspect c) (call_width c) (call_height c)"
  have a: "0 < call_aspect c" using ratio by auto
  from cropRect_face_request [OF size face, of "call_aspect c" rest]
  have req: "crop_unit ?req = Percent" "0 \<le> crop_x ?req" "crop_x ?req \<le> 100"
      "0 \<le> crop_y ?req" "crop_y ?req \<le> 100" "0 \<le> crop_width ?req" "0 \<le> crop_height ?req"
    by simp_all
  from fits [OF req(1) a size req(2-7)]
  have m: "crop_unit ?m = Percent" "0 \<le> crop_width ?m" "crop_width ?m \<le> 100"
      "0 \<le> crop_height ?m" "crop_height ?m \<le> 100"
    by simp_all
  have stored: "crop (onImageLoad_resume lib c (Inr (face # rest)) st)
      = Some (?m\<lparr>crop_x := (100 - crop_width ?m) / 2, crop_y := (100 - crop_height ?m) / 2\<rparr>)"
    by (simp add: resume_detections_crop center [OF m(1) size])
  show ?thesis
    using centred_fits [OF m(2,3)] centred_fits [OF m(4,5)] by (simp add: stored)
qed

text \<open>
  C1. For every image of positive width and height, every face box inside the image
  and each of the three ratios, the crop that \<open>onImageLoad\<close> stores satisfies
  \<open>0 \<le> x\<close>, \<open>0 \<le> y\<close>, \<open>x + width \<le> 100\<close> and \<open>y + height \<le> 100\<close>:
  with the package's computation as the module, and with every module that meets the
  two conditions above. The statement is about the second half of the handler, so it
  holds whatever happened while the detection was in flight.
\<close>

theorem stored_face_crop_in_bounds:
  assumes size: "0 < call_width c" "0 < call_height c"
    and ratio: "call_aspect c = 1 \<or> call_aspect c = 4 / 5 \<or> call_aspect c = 16 / 9"
    and inside: "0 \<le> box_x (box face)" "0 \<le> box_y (box face)"
      "0 \<le> box_width (box face)" "0 \<le> box_height (box face)"
      "box_x (box face) + box_width (box face) \<le> call_width c"
      "box_y (box face) + box_height (box face) \<le> call_height c"
  shows "(\<exists>r. crop (onImageLoad_resume react_image_crop c (Inr (face # rest)) st) = Some r
           \<and> 0 \<le> crop_x r \<and> 0 \<le> crop_y r
           \<and> crop_x r + crop_width r \<le> 100 \<and> crop_y r + crop_height r \<le> 100)
     \<and> (\<forall>lib :: ReactImageCrop.
          (\<forall>r w h. crop_unit r = Percent \<and> 0 < w \<and> 0 < h \<longrightarrow>
             centerCrop lib r w h
               = r\<lparr>crop_x := (100 - crop_width r) / 2,
                    crop_y := (100 - crop_height r) / 2\<rparr>)
          \<and> (\<forall>r a w h. crop_unit r = Percent \<and> 0 < a \<and> 0 < w \<and> 0 < h
                \<and> 0 \<le> crop_x r \<and> crop_x r \<le> 100 \<and> 0 \<le> crop_y r \<and> crop_y r \<le> 100
                \<and> 0 \<le> crop_width r \<and> 0 \<le> crop_height r \<longrightarrow>
             crop_unit (makeAspectCrop lib r a w h) = Percent
             \<and> 0 \<le> crop_width (makeAspectCrop lib r a w h)
             \<and> crop_width (makeAspectCrop lib r a w h) \<le> 100
             \<and> 0 \<le> crop_height (makeAspectCrop lib r a w h)
             \<and> crop_height (makeAspectCrop lib r a w h) \<le> 100)
          \<longrightarrow> (\<exists>r. crop (onImageLoad_resume lib c (Inr (face # rest)) st) = Some r
                 \<and> 0 \<le> crop_x r \<and> 0 \<le> crop_y r
                 \<and> crop_x r + crop_width r \<le> 100 \<and> crop_y r + crop_height r \<le> 100))"
proof (intro conjI allI impI)
  show "\<exists>r. crop (onImageLoad_resume react_image_crop c (Inr (face # rest)) st) = Some r
           \<and> 0 \<le> crop_x r \<and> 0 \<le> crop_y r
           \<and> crop_x r + crop_width r \<le> 100 \<and> crop_y r + crop_height r \<le> 100"
    by (rule stored_face_crop_in_bounds_for
        [OF package_centerCrop_percent package_makeAspectCrop_fits size ratio inside(3,4)])
next
  fix lib :: ReactImageCrop
  assume contract:
    "(\<forall>r w h. crop_unit r = Percent \<and> 0 < w \<and> 0 < h \<longrightarrow>
             centerCrop lib r w h
               = r\<lparr>crop_x := (100 - crop_width r) / 2,
                    crop_y := (100 - crop_height r) / 2\<rparr>)
          \<and> (\<forall>r a w h. crop_unit r = Percent \<and> 0 < a \<and> 0 < w \<and> 0 < h
                \<and> 0 \<le> crop_x r \<and> crop_x r \<le> 100 \<and> 0 \<le> crop_y r \<and> crop_y r \<le> 100
                \<and> 0 \<le> crop_width r \<and> 0 \<le> crop_height r \<longrightarrow>
             crop_unit (makeAspectCrop lib r a w h) = Percent
             \<and> 0 \<le> crop_width (makeAspectCrop lib r a w h)
             \<and> crop_width (makeAspectCrop lib r a w h) \<le> 100
             \<and> 0 \<le> crop_height (makeAspectCrop lib r a w h)
             \<and> crop_height (makeAspectCrop lib r a w h) \<le> 100)"
  show "\<exists>r. crop (onImageLoad_resume lib c (Inr (face # rest)) st) = Some r
                 \<and> 0 \<le> crop_x r \<and> 0 \<le> crop_y r
                 \<and> crop_x r + crop_width r \<le> 100 \<and> crop_y r + crop_height r \<le> 100"
  proof (rule stored_face_crop_in_bounds_for [OF _ _ size ratio inside(3,4)])
    fix r :: Crop and w h :: real
    assume "crop_unit r = Percent" "0 < w" "0 < h"
    with contract show "centerCrop lib r w h
        = r\<lparr>crop_x := (100 - crop_width r) / 2, crop_y := (100 - crop_height r) / 2\<rparr>"
      by blast
  next
    fix r :: Crop and a w h :: real
    assume "crop_unit r = Percent" "0 < a" "0 < w" "0 < h" "0 \<le> crop_x r" "crop_x r \<le> 100"
      "0 \<le> crop_y r" "crop_y r \<le> 100" "0 \<le> crop_width r" "0 \<le> crop_height r"
    with contract show "crop_unit (makeAspectCrop lib r a w h) = Percent
      \<and> 0 \<le> crop_width (makeAspectCrop lib r a w h)
      \<and> crop_width (makeAspectCrop lib r a w h) \<le> 100
      \<and> 0 \<le> crop_height (makeAspectCrop lib r a w h)
      \<and> crop_height (makeAspectCrop lib r a w h) \<le> 100"
      by blast
  qed
qed

text \<open>
  C1 at a 128 by 128 image, the face box (16, 16, 96, 96) and the ratio 1:1: the
  rectangle handed to \<open>makeAspectCrop\<close> is (0, 0, 112.5, 112.5) and the crop stored
  is (0, 0, 100, 100).
\<close>

theorem stored_face_crop_in_bounds_witness:
  "(0::real) < 128 \<and> (0::real) \<le> 16 \<and> (0::real) \<le> 96 \<and> (16::real) + 96 \<le> 128
   \<and> crop (onImageLoad_resume react_image_crop
        \<lparr>call_width = 128, call_height = 128, call_aspect = 1\<rparr>
        (Inr [\<lparr>box = \<lparr>box_x = 16, box_y = 16, box_width = 96, box_height = 96\<rparr>\<rparr>])
        initial_state)
      = Some \<lparr>crop_unit = Percent, crop_x = 0, crop_y = 0, crop_width = 100,
              crop_height = 100\<rparr>
   \<and> (\<exists>r. crop (onImageLoad_resume react_image_crop
        \<lparr>call_width = 128, call_height = 128, call_aspect = 1\<rparr>
        (Inr [\<lparr>box = \<lparr>box_x = 16, box_y = 16, box_width = 96, box_height = 96\<rparr>\<rparr>])
        initial_state) = Some r
        \<and> 0 \<le> crop_x r \<and> 0 \<le> crop_y r
        \<and> crop_x r + crop_width r \<le> 100 \<and> crop_y r + crop_height r \<le> 100)"
proof -
  let ?c = "\<lparr>call_width = 128, call_height = 128, call_aspect = 1\<rparr>"
  let ?f = "\<lparr>box = \<lparr>box_x = 16, box_y = 16, box_width = 96, box_height = 96\<rparr>\<rparr>"
  have mk: "package_makeAspectCrop
      \<lparr>crop_unit = Percent, crop_x = 0, crop_y = 0, crop_width = 112.5,
       crop_height = 112.5\<rparr> 1 128 128
      = \<lparr>crop_unit = Percent, crop_x = 0, crop_y = 0, crop_width = 100, crop_height = 100\<rparr>"
    by (simp add: package_fun_defs)
  have cc: "package_centerCrop
      \<lparr>crop_unit = Percent, crop_x = 0, crop_y = 0, crop_width = 100, crop_height = 100\<rparr>
      128 128
      = \<lparr>crop_unit = Percent, crop_x = 0, crop_y = 0, crop_width = 100, crop_height = 100\<rparr>"
    by (simp add: package_fun_defs)
  have stored: "crop (onImageLoad_resume react_image_crop ?c (Inr [?f]) initial_state)
      = Some \<lparr>crop_unit = Percent, crop_x = 0, crop_y = 0, crop_width = 100,
              crop_height = 100\<rparr>"
    by (rule stored_crop_eval [OF request_of_large_face mk cc])
  have "0 < call_width ?c" "0 < call_height ?c"
      "call_aspect ?c = 1 \<or> call_aspect ?c = 4 / 5 \<or> call_aspect ?c = 16 / 9"
      "0 \<le> box_x (box ?f)" "0 \<le> box_y (box ?f)"
      "0 \<le> box_width (box ?f)" "0 \<le> box_height (box ?f)"
      "box_x (box ?f) + box_width (box ?f) \<le> call_width ?c"
      "box_y (box ?f) + box_height (box ?f) \<le> call_height ?c"
    by simp_all
  from stored_face_crop_in_bounds [OF this, where rest = "[]" and st = initial_state]
  have bounds: "\<exists>r. crop (onImageLoad_resume react_image_crop ?c (Inr [?f]) initial_state)
        = Some r
        \<and> 0 \<le> crop_x r \<and> 0 \<le> crop_y r
        \<and> crop_x r + crop_width r \<le> 100 \<and> crop_y r + crop_height r \<le> 100"
    by (rule conjunct1)
  from bounds show ?thesis
    unfolding stored by simp
qed






subsection \<open>The detection settles\<close>

text \<open>
  C4. When the detection call throws, or returns no detection, the second half of the
  handler sets the crop to the fallback rectangle (5, 5, 90, 90) in percent, passed
  through \<open>makeAspectCrop\<close> and \<open>centerCrop\<close>, and clears the loading flag; no
  error is part of the result. The aspect it passes is the one that its closure
  captured when the load event fired. Take an image that starts loading under the
  ratio 1:1: when the user clicks 16:9 while the detection is in flight and the call
  then throws, the crop stored is the fallback adjusted for the aspect 1 while the
  active aspect is 16/9, and it is not the case that for every behaviour of the
  module this is the fallback adjusted for 16/9.
\<close>

theorem stale_detector_failure_uses_captured_aspect:
  "onImageLoad_resume lib c (Inl e) st
     = st\<lparr>crop := Some (centerCrop lib
              (makeAspectCrop lib
                 \<lparr>crop_unit = Percent, crop_x = 5, crop_y = 5, crop_width = 90,
                  crop_height = 90\<rparr>
                 (call_aspect c) (call_width c) (call_height c))
              (call_width c) (call_height c)),
          isLoading := False\<rparr>
   \<and> onImageLoad_resume lib c (Inr []) st = onImageLoad_resume lib c (Inl e) st
   \<and> crop (onImageLoad_resume lib
           (snd (onImageLoad_begin target (reader_load (Some src) initial_state))) (Inl e)
           (setAspect lib (Some target) (16 / 9)
              (fst (onImageLoad_begin target (reader_load (Some src) initial_state)))))
     = Some (centerCrop lib
              (makeAspectCrop lib
                 \<lparr>crop_unit = Percent, crop_x = 5, crop_y = 5, crop_width = 90,
                  crop_height = 90\<rparr>
                 1 (img_width target) (img_height target))
              (img_width target) (img_height target))
   \<and> aspect (onImageLoad_resume lib
           (snd (onImageLoad_begin target (reader_load (Some src) initial_state))) (Inl e)
           (setAspect lib (Some target) (16 / 9)
              (fst (onImageLoad_begin target (reader_load (Some src) initial_state)))))
     = 16 / 9
   \<and> \<not> (\<forall>module.
          crop (onImageLoad_resume module
             (snd (onImageLoad_begin target (reader_load (Some src) initial_state))) (Inl e)
             (setAspect module (Some target) (16 / 9)
                (fst (onImageLoad_begin target (reader_load (Some src) initial_state)))))
          = Some (centerCrop module
              (makeAspectCrop module
                 \<lparr>crop_unit = Percent, crop_x = 5, crop_y = 5, crop_width = 90,
                  crop_height = 90\<rparr>
                 (16 / 9) (img_width target) (img_height target))
              (img_width target) (img_height target)))"
proof -
  have resume: "onImageLoad_resume lib c (Inl e) st
     = st\<lparr>crop := Some (centerCrop lib
              (makeAspectCrop lib
                 \<lparr>crop_unit = Percent, crop_x = 5, crop_y = 5, crop_width = 90,
                  crop_height = 90\<rparr>
                 (call_aspect c) (call_width c) (call_height c))
              (call_width c) (call_height c)),
          isLoading := False\<rparr>"
    "onImageLoad_resume lib c (Inr []) st = onImageLoad_resume lib c (Inl e) st"
    by (simp_all add: load_defs cropRect_def fallbackCrop_def)
  have stale: "\<And>m. crop (onImageLoad_resume m
           (snd (onImageLoad_begin target (reader_load (Some src) initial_state))) (Inl e)
           (setAspect m (Some target) (16 / 9)
              (fst (onImageLoad_begin target (reader_load (Some src) initial_state)))))
     = Some (centerCrop m
              (makeAspectCrop m
                 \<lparr>crop_unit = Percent, crop_x = 5, crop_y = 5, crop_width = 90,
                  crop_height = 90\<rparr>
                 1 (img_width target) (img_height target))
              (img_width target) (img_height target))"
    by (simp add: load_defs setAspect_def aspect_effect_def reader_load_def
        initial_state_def fallbackCrop_def)
  have active: "aspect (onImageLoad_resume lib
           (snd (onImageLoad_begin target (reader_load (Some src) initial_state))) (Inl e)
           (setAspect lib (Some target) (16 / 9)
              (fst (onImageLoad_begin target (reader_load (Some src) initial_state)))))
     = 16 / 9"
    by (simp add: load_defs setAspect_def aspect_effect_def reader_load_def
        initial_state_def)
  have differs: "\<not> (\<forall>module.
          crop (onImageLoad_resume module
             (snd (onImageLoad_begin target (reader_load (Some src) initial_state))) (Inl e)
             (setAspect module (Some target) (16 / 9)
                (fst (onImageLoad_begin target (reader_load (Some src) initial_state)))))
          = Some (centerCrop module
              (makeAspectCrop module
                 \<lparr>crop_unit = Percent, crop_x = 5, crop_y = 5, crop_width = 90,
                  crop_height = 90\<rparr>
                 (16 / 9) (img_width target) (img_height target))
              (img_width target) (img_height target)))"
  proof
    assume all: "\<forall>module.
          crop (onImageLoad_resume module
             (snd (onImageLoad_begin target (reader_load (Some src) initial_state))) (Inl e)
             (setAspect module (Some target) (16 / 9)
                (fst (onImageLoad_begin target (reader_load (Some src) initial_state)))))
          = Some (centerCrop module
              (makeAspectCrop module
                 \<lparr>crop_unit = Percent, crop_x = 5, crop_y = 5, crop_width = 90,
                  crop_height = 90\<rparr>
                 (16 / 9) (img_width target) (img_height target))
              (img_width target) (img_height target))"
    from all [rule_format,
        of "\<lparr>makeAspectCrop = \<lambda>r a w h. r\<lparr>crop_width := a\<rparr>, centerCrop = \<lambda>r w h. r\<rparr>"]
    show False
      unfolding stale by simp
  qed
  from resume stale [of lib] active differs show ?thesis
    by (simp only: simp_thms)
qed

text \<open>
  C3. The crop should have the ratio of the active aspect after every operation. Take
  an image that starts loading under the ratio 1:1. When the user clicks 16:9 while
  the detection is in flight and the detection settles afterwards, the crop is the one
  that the undisturbed load under 1:1 sets, while the aspect is 16/9. So whatever
  \<open>makeAspectCrop\<close> and \<open>centerCrop\<close> compute and however the ratio of a crop is
  measured, the crop cannot have the ratio of the active aspect in both final states.
\<close>

theorem stale_detection_breaks_aspect_invariant:
  "crop (onImageLoad_resume lib
           (snd (onImageLoad_begin target (reader_load (Some src) initial_state))) result
           (setAspect lib (Some target) (16 / 9)
              (fst (onImageLoad_begin target (reader_load (Some src) initial_state)))))
     = crop (onImageLoad lib target result (reader_load (Some src) initial_state))
   \<and> aspect (onImageLoad_resume lib
           (snd (onImageLoad_begin target (reader_load (Some src) initial_state))) result
           (setAspect lib (Some target) (16 / 9)
              (fst (onImageLoad_begin target (reader_load (Some src) initial_state)))))
     = 16 / 9
   \<and> aspect (onImageLoad lib target result (reader_load (Some src) initial_state)) = 1
   \<and> \<not> (ratio (crop (onImageLoad_resume lib
           (snd (onImageLoad_begin target (reader_load (Some src) initial_state))) result
           (setAspect lib (Some target) (16 / 9)
              (fst (onImageLoad_begin target (reader_load (Some src) initial_state))))))
          = aspect (onImageLoad_resume lib
           (snd (onImageLoad_begin target (reader_load (Some src) initial_state))) result
           (setAspect lib (Some target) (16 / 9)
              (fst (onImageLoad_begin target (reader_load (Some src) initial_state)))))
        \<and> ratio (crop (onImageLoad lib target result (reader_load (Some src) initial_state)))
          = aspect (onImageLoad lib target result (reader_load (Some src) initial_state)))"
  by (cases result)
    (simp_all add: load_defs setAspect_def aspect_effect_def reader_load_def initial_state_def)

text \<open>
  C6, as amended. When the user cancels while the detection is in flight, the
  completion of the detection still sets the crop, to the rectangle it sets without
  the cancel, and clears the loading flag. The image source and the committed crop
  stay cleared, and the aspect and the drag flag are not changed.
\<close>

theorem stale_detection_after_cancel:
  "crop (onImageLoad_resume lib (snd (onImageLoad_begin target st)) result
           (handleCancel (fst (onImageLoad_begin target st))))
     = crop (onImageLoad lib target result st)
   \<and> crop (onImageLoad_resume lib (snd (onImageLoad_begin target st)) result
           (handleCancel (fst (onImageLoad_begin target st)))) \<noteq> None
   \<and> isLoading (onImageLoad_resume lib (snd (onImageLoad_begin target st)) result
           (handleCancel (fst (onImageLoad_begin target st)))) = False
   \<and> imgSrc (onImageLoad_resume lib (snd (onImageLoad_begin target st)) result
           (handleCancel (fst (onImageLoad_begin target st)))) = ''''
   \<and> completedCrop (onImageLoad_resume lib (snd (onImageLoad_begin target st)) result
           (handleCancel (fst (onImageLoad_begin target st)))) = None
   \<and> aspect (onImageLoad_resume lib (snd (onImageLoad_begin target st)) result
           (handleCancel (fst (onImageLoad_begin target st)))) = aspect st
   \<and> isDragging (onImageLoad_resume lib (snd (onImageLoad_begin target st)) result
           (handleCancel (fst (onImageLoad_begin target st)))) = isDragging st"
  by (cases result) (simp_all add: load_defs handleCancel_def)

text \<open>
  C6 as stated fails: an image rendered at 400 by 300 loads, the user cancels, and the
  detector then returns no detection. Whatever the two library functions compute, the
  state after the completion differs from the state the cancel left: the loading flag
  goes from true to false (and the crop from undefined to a rectangle).
\<close>

theorem stale_detection_after_cancel_counterexample:
  "\<not> (\<exists>lib.
        onImageLoad_resume lib
          (snd (onImageLoad_begin
             \<lparr>img_width = 400, img_height = 300, naturalWidth = 800, naturalHeight = 600\<rparr>
             (reader_load (Some ''data:image/png;base64,AAAA'') initial_state)))
          (Inr [])
          (handleCancel (fst (onImageLoad_begin
             \<lparr>img_width = 400, img_height = 300, naturalWidth = 800, naturalHeight = 600\<rparr>
             (reader_load (Some ''data:image/png;base64,AAAA'') initial_state))))
        = handleCancel (fst (onImageLoad_begin
             \<lparr>img_width = 400, img_height = 300, naturalWidth = 800, naturalHeight = 600\<rparr>
             (reader_load (Some ''data:image/png;base64,AAAA'') initial_state))))"
proof
  assume "\<exists>lib.
        onImageLoad_resume lib
          (snd (onImageLoad_begin
             \<lparr>img_width = 400, img_height = 300, naturalWidth = 800, naturalHeight = 600\<rparr>
             (reader_load (Some ''data:image/png;base64,AAAA'') initial_state)))
          (Inr [])
          (handleCancel (fst (onImageLoad_begin
             \<lparr>img_width = 400, img_height = 300, naturalWidth = 800, naturalHeight = 600\<rparr>
             (reader_load (Some ''data:image/png;base64,AAAA'') initial_state))))
        = handleCancel (fst (onImageLoad_begin
             \<lparr>img_width = 400, img_height = 300, naturalWidth = 800, naturalHeight = 600\<rparr>
             (reader_load (Some ''data:image/png;base64,AAAA'') initial_state)))"
  then obtain lib where eq: "onImageLoad_resume lib
          (snd (onImageLoad_begin
             \<lparr>img_width = 400, img_height = 300, naturalWidth = 800, naturalHeight = 600\<rparr>
             (reader_load (Some ''data:image/png;base64,AAAA'') initial_state)))
          (Inr [])
          (handleCancel (fst (onImageLoad_begin
             \<lparr>img_width = 400, img_height = 300, naturalWidth = 800, naturalHeight = 600\<rparr>
             (reader_load (Some ''data:image/png;base64,AAAA'') initial_state))))
        = handleCancel (fst (onImageLoad_begin
             \<lparr>img_width = 400, img_height = 300, naturalWidth = 800, naturalHeight = 600\<rparr>
             (reader_load (Some ''data:image/png;base64,AAAA'') initial_state)))" ..
  from arg_cong [OF eq, of isLoading] show False
    by (simp add: load_defs handleCancel_def reader_load_def initial_state_def)
qed

subsection \<open>A change of the aspect\<close>

text \<open>
  C8, as amended. When the aspect changes while an image is mounted, the crop is
  recomputed from the fallback rectangle against the rendered width and height of the
  image element (its \<open>width\<close> and \<open>height\<close>, not \<open>naturalWidth\<close> and
  \<open>naturalHeight\<close>).
\<close>

theorem aspect_change_recomputes_from_rendered_size:
  assumes "a \<noteq> aspect st"
  shows "setAspect lib (Some img) a st
     = st\<lparr>aspect := a,
          crop := Some (centerCrop lib
                    (makeAspectCrop lib
                       \<lparr>crop_unit = Percent, crop_x = 5, crop_y = 5, crop_width = 90,
                        crop_height = 90\<rparr>
                       a (img_width img) (img_height img))
                    (img_width img) (img_height img))\<rparr>"
  using assms by (simp add: setAspect_def aspect_effect_def fallbackCrop_def Let_def)

text \<open>
  The amended C8 at an image of 1000 by 667 pixels rendered at 900 by 600, with the
  two library functions replaced by ones that record the container size they are
  given: the size recorded is 900 by 600.
\<close>

theorem aspect_change_recomputes_from_rendered_size_witness:
  "(16 / 9 :: real)
     \<noteq> aspect (reader_load (Some ''data:image/png;base64,AAAA'') initial_state)
   \<and> crop (setAspect
        \<lparr>makeAspectCrop = \<lambda>c a w h. c\<lparr>crop_width := w, crop_height := h\<rparr>,
         centerCrop = \<lambda>c w h. c\<rparr>
        (Some \<lparr>img_width = 900, img_height = 600, naturalWidth = 1000, naturalHeight = 667\<rparr>)
        (16 / 9) (reader_load (Some ''data:image/png;base64,AAAA'') initial_state))
     = Some \<lparr>crop_unit = Percent, crop_x = 5, crop_y = 5, crop_width = 900,
             crop_height = 600\<rparr>"
proof -
  have h: "(16 / 9 :: real)
      \<noteq> aspect (reader_load (Some ''data:image/png;base64,AAAA'') initial_state)"
    by (simp add: reader_load_def initial_state_def)
  show ?thesis
    using h aspect_change_recomputes_from_rendered_size [OF h,
        of "\<lparr>makeAspectCrop = \<lambda>c a w h. c\<lparr>crop_width := w, crop_height := h\<rparr>,
           centerCrop = \<lambda>c w h. c\<rparr>"
           "\<lparr>img_width = 900, img_height = 600, naturalWidth = 1000, naturalHeight = 667\<rparr>"]
    by simp
qed

text \<open>
  C8 as stated fails at the same image: it is not the case that, for every behaviour
  of the two library functions, the crop after the change to 16:9 is the one computed
  against the natural size 1000 by 667.
\<close>

theorem aspect_change_uses_natural_size_counterexample:
  "\<not> (\<forall>lib.
        crop (setAspect lib
                (Some \<lparr>img_width = 900, img_height = 600, naturalWidth = 1000,
                       naturalHeight = 667\<rparr>)
                (16 / 9) (reader_load (Some ''data:image/png;base64,AAAA'') initial_state))
        = Some (centerCrop lib (makeAspectCrop lib fallbackCrop (16 / 9) 1000 667) 1000 667))"
proof
  assume claim: "\<forall>lib.
        crop (setAspect lib
                (Some \<lparr>img_width = 900, img_height = 600, naturalWidth = 1000,
                       naturalHeight = 667\<rparr>)
                (16 / 9) (reader_load (Some ''data:image/png;base64,AAAA'') initial_state))
        = Some (centerCrop lib (makeAspectCrop lib fallbackCrop (16 / 9) 1000 667) 1000 667)"
  from claim [rule_format,
      of "\<lparr>makeAspectCrop = \<lambda>c a w h. c\<lparr>crop_width := w, crop_height := h\<rparr>,
           centerCrop = \<lambda>c w h. c\<rparr>"]
  show False
    by (simp add: setAspect_def aspect_effect_def reader_load_def initial_state_def
        fallbackCrop_def Let_def)
qed

subsection \<open>Export\<close>

text \<open>
  C5, as amended. Export sets the canvas to the width and height of the committed
  crop, which is in rendered pixels, and draws the region of the image at
  (x * scaleX, y * scaleY) of size (width * scaleX, height * scaleY), where scaleX =
  naturalWidth / width and scaleY = naturalHeight / height of the image element. For
  the crop that covers (10, 10, 50, 50) percent of an image rendered at 200 by 200,
  which is (20, 20, 100, 100) in rendered pixels, on a 400 by 400 file the output is
  100 by 100 pixels and is drawn from the region [40, 40] to [240, 240].
\<close>

theorem export_draws_scaled_region:
  "downloadCroppedImage (Some img) (Some c) True
     = Some \<lparr>canvas_width = crop_width c, canvas_height = crop_height c,
             sx = crop_x c * (naturalWidth img / img_width img),
             sy = crop_y c * (naturalHeight img / img_height img),
             sWidth = crop_width c * (naturalWidth img / img_width img),
             sHeight = crop_height c * (naturalHeight img / img_height img),
             dx = 0, dy = 0, dWidth = crop_width c, dHeight = crop_height c\<rparr>
   \<and> downloadCroppedImage
      (Some \<lparr>img_width = 200, img_height = 200, naturalWidth = 400, naturalHeight = 400\<rparr>)
      (Some \<lparr>crop_unit = Px, crop_x = 10 / 100 * 200, crop_y = 10 / 100 * 200,
             crop_width = 50 / 100 * 200, crop_height = 50 / 100 * 200\<rparr>)
      True
     = Some \<lparr>canvas_width = 100, canvas_height = 100, sx = 40, sy = 40,
             sWidth = 240 - 40, sHeight = 240 - 40, dx = 0, dy = 0, dWidth = 100,
             dHeight = 100\<rparr>"
  by (simp add: downloadCroppedImage_def Let_def)

text \<open>
  C5 as stated fails at its scenario. With the committed crop (20, 20, 100, 100) in
  rendered pixels the output is 100 by 100 but the region starts at (40, 40) and is
  200 by 200. With the numbers (10, 10, 50, 50) taken as rendered pixels the region is
  [20, 20] to [120, 120] but the output is 50 by 50. Neither is a 100 by 100 output
  drawn from [20, 20] to [120, 120].
\<close>

theorem export_scenario_counterexample:
  "downloadCroppedImage
      (Some \<lparr>img_width = 200, img_height = 200, naturalWidth = 400, naturalHeight = 400\<rparr>)
      (Some \<lparr>crop_unit = Px, crop_x = 20, crop_y = 20, crop_width = 100, crop_height = 100\<rparr>)
      True
     = Some \<lparr>canvas_width = 100, canvas_height = 100, sx = 40, sy = 40, sWidth = 200,
             sHeight = 200, dx = 0, dy = 0, dWidth = 100, dHeight = 100\<rparr>
   \<and> downloadCroppedImage
      (Some \<lparr>img_width = 200, img_height = 200, naturalWidth = 400, naturalHeight = 400\<rparr>)
      (Some \<lparr>crop_unit = Px, crop_x = 10, crop_y = 10, crop_width = 50, crop_height = 50\<rparr>)
      True
     = Some \<lparr>canvas_width = 50, canvas_height = 50, sx = 20, sy = 20, sWidth = 100,
             sHeight = 100, dx = 0, dy = 0, dWidth = 50, dHeight = 50\<rparr>"
  by (simp add: downloadCroppedImage_def Let_def)

end
